theory Spec2Isabelle
  imports Complex_Main
begin

section \<open>JavaScript values of the pre-computed bundle\<close>

text \<open>
  \<^verbatim>\<open>LocusPage.js\<close> reads one global object, \<^verbatim>\<open>window.preComputedDataInd\<close>, which
  the report generator embeds as JSON. Its values are therefore JSON values; the value
  \<^verbatim>\<open>undefined\<close> is added because reading a property that an object does not have
  yields it. Numbers are modelled by their real value, strings by character lists, an
  object by the list of its own properties (looked up by key, first binding).
\<close>

datatype jsval =
    JUndefined
  | JNull
  | JBool bool
  | JNum real
  | JStr string
  | JArr "jsval list"
  | JObj "(string \<times> jsval) list"

text \<open>
  The runtime failures the page can raise are all \<^verbatim>\<open>TypeError\<close>s. The constructor
  records which one, and for a failed property read the name of the property that was
  being read:
  \<^item> \<open>ReadOfNullish k\<close>: "Cannot read properties of undefined (reading 'k')", also for \<^verbatim>\<open>null\<close>;
  \<^item> \<open>NotAFunction k\<close>: "x.k is not a function";
  \<^item> \<open>NotPrimitive\<close>: "Cannot convert object to primitive value".
\<close>

datatype error = ReadOfNullish string | NotAFunction string | NotPrimitive

type_synonym 'a result = "error + 'a"

definition bind_res :: "'a result \<Rightarrow> ('a \<Rightarrow> 'b result) \<Rightarrow> 'b result" where
  "bind_res m f = (case m of Inl e \<Rightarrow> Inl e | Inr v \<Rightarrow> f v)"

text \<open>Evaluation of a list of computations from left to right; the first failure wins.\<close>

fun sequence_res :: "'a result list \<Rightarrow> 'a list result" where
  "sequence_res [] = Inr []"
| "sequence_res (m # ms) =
     bind_res m (\<lambda>v. bind_res (sequence_res ms) (\<lambda>vs. Inr (v # vs)))"

definition nullish :: "jsval \<Rightarrow> bool" where
  "nullish v = (v = JUndefined \<or> v = JNull)"

subsection \<open>Property reads\<close>

text \<open>
  \<open>get_field v k\<close> is the read \<^verbatim>\<open>v.k\<close> for the property names that occur in the page
  (\<^verbatim>\<open>summaryData\<close>, \<^verbatim>\<open>rows\<close>, \<^verbatim>\<open>lengths\<close>, \<^verbatim>\<open>ids\<close>, \<^verbatim>\<open>phylo\<close>, \<^verbatim>\<open>phylo_data\<close>,
  \<^verbatim>\<open>dna\<close>, \<^verbatim>\<open>protein\<close>, \<^verbatim>\<open>sequences\<close>, \<^verbatim>\<open>name\<close>, \<^verbatim>\<open>sequence\<close>). None of them is
  inherited from a prototype, so on an object the read finds an own property or yields
  \<^verbatim>\<open>undefined\<close>, on an array, string, number or boolean it yields \<^verbatim>\<open>undefined\<close>, and on
  \<^verbatim>\<open>undefined\<close> and \<^verbatim>\<open>null\<close> it throws.
\<close>

fun get_field :: "jsval \<Rightarrow> string \<Rightarrow> jsval result" where
  "get_field JUndefined k = Inl (ReadOfNullish k)"
| "get_field JNull k = Inl (ReadOfNullish k)"
| "get_field (JObj kvs) k = Inr (case map_of kvs k of Some v \<Rightarrow> v | None \<Rightarrow> JUndefined)"
| "get_field v k = Inr JUndefined"

text \<open>The decimal spelling of an array index, which is the property key it denotes.\<close>

definition digit_char :: "nat \<Rightarrow> char" where
  "digit_char d = ''0123456789'' ! d"

fun index_key :: "nat \<Rightarrow> string" where
  "index_key n = (if n < 10 then [digit_char n] else index_key (n div 10) @ [digit_char (n mod 10)])"

text \<open>
  \<open>get_index v i\<close> is the read \<^verbatim>\<open>v[i]\<close> for a literal index: an element of an array, a
  one-character string of a string, the own property spelled \<open>index_key i\<close> of an object,
  \<^verbatim>\<open>undefined\<close> where there is none, and a throw on \<^verbatim>\<open>undefined\<close> and \<^verbatim>\<open>null\<close>.
\<close>

fun get_index :: "jsval \<Rightarrow> nat \<Rightarrow> jsval result" where
  "get_index JUndefined i = Inl (ReadOfNullish (index_key i))"
| "get_index JNull i = Inl (ReadOfNullish (index_key i))"
| "get_index (JArr xs) i = Inr (if i < length xs then xs ! i else JUndefined)"
| "get_index (JStr s) i = Inr (if i < length s then JStr [s ! i] else JUndefined)"
| "get_index (JObj kvs) i =
     Inr (case map_of kvs (index_key i) of Some v \<Rightarrow> v | None \<Rightarrow> JUndefined)"
| "get_index v i = Inr JUndefined"

subsection \<open>String conversion in template literals\<close>

text \<open>
  A template literal \<^verbatim>\<open>`${v}`\<close> converts \<open>v\<close> with \<^verbatim>\<open>ToString\<close>. The spelling of a
  number is the language's, not the repository's: it is the parameter \<open>nstr\<close>. An array
  is joined with commas, its \<^verbatim>\<open>undefined\<close> and \<^verbatim>\<open>null\<close> elements spelled as the empty
  string. A plain object is \<^verbatim>\<open>[object Object]\<close>, unless it has an own property
  \<^verbatim>\<open>toString\<close>: that one shadows the inherited method and, coming from JSON, is not
  callable, and the conversion throws.
\<close>

fun join_with :: "string \<Rightarrow> string list \<Rightarrow> string" where
  "join_with sep [] = []"
| "join_with sep [s] = s"
| "join_with sep (s # t # ss) = s @ sep @ join_with sep (t # ss)"

fun to_str :: "(real \<Rightarrow> string) \<Rightarrow> jsval \<Rightarrow> string result" where
  "to_str nstr JUndefined = Inr ''undefined''"
| "to_str nstr JNull = Inr ''null''"
| "to_str nstr (JBool b) = Inr (if b then ''true'' else ''false'')"
| "to_str nstr (JNum r) = Inr (nstr r)"
| "to_str nstr (JStr s) = Inr s"
| "to_str nstr (JArr xs) =
     bind_res (sequence_res (map (\<lambda>x. if nullish x then Inr [] else to_str nstr x) xs))
       (\<lambda>ss. Inr (join_with '','' ss))"
| "to_str nstr (JObj kvs) =
     (if map_of kvs ''toString'' = None then Inr ''[object Object]'' else Inl NotPrimitive)"

text \<open>
  \<^verbatim>\<open>v.map(f)\<close>: on an array the callback runs on the elements in order; \<^verbatim>\<open>undefined\<close>
  and \<^verbatim>\<open>null\<close> have no properties; any other JSON value has no callable \<^verbatim>\<open>map\<close>.
\<close>

fun js_map :: "(jsval \<Rightarrow> 'a result) \<Rightarrow> jsval \<Rightarrow> 'a list result" where
  "js_map f (JArr xs) = sequence_res (map f xs)"
| "js_map f JUndefined = Inl (ReadOfNullish ''map'')"
| "js_map f JNull = Inl (ReadOfNullish ''map'')"
| "js_map f v = Inl (NotAFunction ''map'')"

section \<open>Panel selection state\<close>

text \<open>
  \<^verbatim>\<open>const [panel, setPanel] = useState(0)\<close>: the component's only state is the value
  of \<open>panel\<close>, initially the number 0. \<^verbatim>\<open>setPanel(v)\<close> replaces it by \<open>v\<close>.
  \<^verbatim>\<open>handleChange(event, newValue)\<close> calls \<^verbatim>\<open>setPanel(newValue)\<close> and nothing else.
\<close>

definition initial_panel :: jsval where
  "initial_panel = JNum 0"

definition setPanel :: "jsval \<Rightarrow> jsval \<Rightarrow> jsval" where
  "setPanel newValue panel = newValue"

definition handleChange :: "'event \<Rightarrow> jsval \<Rightarrow> jsval \<Rightarrow> jsval" where
  "handleChange event newValue panel = setPanel newValue panel"

text \<open>The state after a sequence of change events, each with the value it carries.\<close>

fun after_changes :: "jsval \<Rightarrow> ('event \<times> jsval) list \<Rightarrow> jsval" where
  "after_changes panel [] = panel"
| "after_changes panel ((event, newValue) # rest) =
     after_changes (handleChange event newValue panel) rest"

section \<open>The page\<close>

text \<open>
  \<^verbatim>\<open>TabPanel\<close> (lines 30-48) renders a \<^verbatim>\<open>div\<close> that is hidden when \<^verbatim>\<open>value !== index\<close>
  and that holds its children only when \<^verbatim>\<open>value === index\<close>. Every \<open>index\<close> the page
  passes is a number literal or absent, so strict equality is equality of values.
\<close>

record 'c tab_panel =
  tp_hidden :: bool
  tp_children :: "'c option"

definition TabPanel :: "jsval \<Rightarrow> jsval \<Rightarrow> 'c \<Rightarrow> 'c tab_panel" where
  "TabPanel val index children =
     \<lparr>tp_hidden = (val \<noteq> index),
      tp_children = (if val = index then Some children else None)\<rparr>"

text \<open>
  The properties handed to the chart, tree and text widgets. Styling, labels and the
  identifiers made by \<^verbatim>\<open>a11yProps\<close> (lines 51-56) carry no data of the bundle and are left
  out, as is the alignment section, which renders \<^verbatim>\<open>Resized\<close> with no properties.
\<close>

record plotly_props =
  plotData :: jsval
  plotTitle :: jsval
  xaxisTitle :: string
  yaxisTitle :: string
  layoutProps :: jsval
  configOptions :: jsval

record tree_props =
  tree_source :: jsval
  treeWidth :: real
  treeHeight :: real

record view =
  tableData :: jsval
  tableTitle :: string
  tableOptions :: jsval
  tabsValue :: jsval
  tabPanelA :: "plotly_props tab_panel"
  tabPanelB :: "plotly_props tab_panel"
  treePanel :: "tree_props tab_panel"
  dnaEditor :: string
  proteinEditor :: string

text \<open>
  A run of the component that does not throw yields the constants its body computes
  (lines 69-172) and the element tree it returns (lines 174-320), of which the record
  \<open>view\<close> keeps the data handed to the widgets.
\<close>

record page =
  summaryData :: jsval
  locusName :: jsval
  summaryTableOptions :: jsval
  plotDataPanelA :: jsval
  layoutPanelA :: jsval
  configPanelA :: jsval
  plotDataPanelB :: jsval
  layoutPanelB :: jsval
  configPanelB :: jsval
  phyloData :: jsval
  joinedDNA :: string
  joinedProtein :: string
  rendered :: view

text \<open>
  The arrow functions of lines 154-159 and 165-170 are the same text:
  \<^verbatim>\<open>(seq) => `>${seq.name}\n${seq.sequence}\n`\<close>.
\<close>

definition sequenceStr :: "(real \<Rightarrow> string) \<Rightarrow> jsval \<Rightarrow> string result" where
  "sequenceStr nstr seq =
     bind_res (get_field seq ''name'') (\<lambda>seqid.
     bind_res (get_field seq ''sequence'') (\<lambda>sequence.
     bind_res (to_str nstr seqid) (\<lambda>seqidStr.
     bind_res (to_str nstr sequence) (\<lambda>sequenceText.
     Inr (''>'' @ seqidStr @ ''\<newline>'' @ sequenceText @ ''\<newline>'')))))"

text \<open>\<^verbatim>\<open>xs.join('')\<close> on an array of strings.\<close>

definition join_empty :: "string list \<Rightarrow> string" where
  "join_empty ss = join_with [] ss"

definition LocusPage :: "(real \<Rightarrow> string) \<Rightarrow> jsval \<Rightarrow> jsval \<Rightarrow> page result" where
  "LocusPage nstr panel data =
     bind_res (get_field data ''summaryData'') (\<lambda>summaryData'.
     bind_res (get_index summaryData' 1) (\<lambda>section1.
     bind_res (get_field section1 ''rows'') (\<lambda>rows.
     bind_res (get_index rows 0) (\<lambda>row0.
     bind_res (get_index row0 0) (\<lambda>locusName'.
     let summaryTableOptions' = JObj
           [(''responsive'', JStr ''simple''),
            (''selectableRowsHeader'', JBool False),
            (''selectableRows'', JStr ''none''),
            (''selectableRowsOnClick'', JBool False),
            (''print'', JBool False),
            (''download'', JBool True),
            (''downloadOptions'', JObj
               [(''filename'', JStr ''schema:summary.tsv''),
                (''separator'', JStr [CHR 0x09])]),
            (''filter'', JBool False),
            (''search'', JBool False),
            (''viewColumns'', JBool True),
            (''pagination'', JBool False)] in
     bind_res (get_field data ''lengths'') (\<lambda>xDataPanelA.
     bind_res (get_field data ''lengths'') (\<lambda>yDataPanelA.
     let plotDataPanelA' = JArr
           [JObj
              [(''x'', xDataPanelA),
               (''y'', yDataPanelA),
               (''type'', JStr ''histogram''),
               (''name'', locusName'),
               (''marker'', JObj
                  [(''color'', JStr ''#0570b0''),
                   (''line'', JObj
                      [(''color'', JStr ''#a6bddb''),
                       (''width'', JNum 1)])])]];
         layoutPanelA' = JObj [(''bargroupgap'', JNum 0.05)] in
     bind_res (to_str nstr locusName') (\<lambda>locusNameText.
     let configPanelA' = JObj
           [(''toImageButtonOptions'', JObj
               [(''format'', JStr ''svg''),
                (''filename'', JStr (locusNameText @ ''_AlleleSizes'')),
                (''height'', JNum 500),
                (''width'', JNum 700),
                (''scale'', JNum 1)])] in
     bind_res (get_field data ''ids'') (\<lambda>xDataPanelB.
     let yDataPanelB = xDataPanelA;
         plotDataPanelB' = JArr
           [JObj
              [(''x'', xDataPanelB),
               (''y'', yDataPanelB),
               (''type'', JStr ''scatter''),
               (''name'', JStr ''Distribution of allele mode sizes per gene''),
               (''mode'', JStr ''markers''),
               (''marker'', JObj [(''color'', JStr ''#0570b0'')])]];
         layoutPanelB' = JObj [(''bargroupgap'', JNum 0.05)];
         configPanelB' = JObj
           [(''toImageButtonOptions'', JObj
               [(''format'', JStr ''svg''),
                (''filename'', JStr ''AlleleModeSize''),
                (''height'', JNum 500),
                (''width'', JNum 700),
                (''scale'', JNum 1)])] in
     bind_res (get_field data ''phylo'') (\<lambda>phylo.
     bind_res (get_field phylo ''phylo_data'') (\<lambda>phyloData'.
     bind_res (get_field data ''dna'') (\<lambda>dna.
     bind_res (get_field dna ''sequences'') (\<lambda>dnaSequences.
     bind_res (js_map (sequenceStr nstr) dnaSequences) (\<lambda>dnaText.
     let joinedDNA' = join_empty dnaText in
     bind_res (get_field data ''protein'') (\<lambda>protein.
     bind_res (get_field protein ''sequences'') (\<lambda>proteinSequences.
     bind_res (js_map (sequenceStr nstr) proteinSequences) (\<lambda>proteinText.
     let joinedProtein' = join_empty proteinText in
     Inr \<lparr>summaryData = summaryData',
          locusName = locusName',
          summaryTableOptions = summaryTableOptions',
          plotDataPanelA = plotDataPanelA',
          layoutPanelA = layoutPanelA',
          configPanelA = configPanelA',
          plotDataPanelB = plotDataPanelB',
          layoutPanelB = layoutPanelB',
          configPanelB = configPanelB',
          phyloData = phyloData',
          joinedDNA = joinedDNA',
          joinedProtein = joinedProtein',
          rendered =
            \<lparr>tableData = summaryData',
             tableTitle = ''Summary Data'',
             tableOptions = summaryTableOptions',
             tabsValue = panel,
             tabPanelA = TabPanel panel (JNum 0)
               \<lparr>plotData = plotDataPanelA',
                plotTitle = locusName',
                xaxisTitle = ''Sequence Size (bp)'',
                yaxisTitle = ''Number of Alleles'',
                layoutProps = layoutPanelA',
                configOptions = configPanelA'\<rparr>,
             tabPanelB = TabPanel panel (JNum 1)
               \<lparr>plotData = plotDataPanelB',
                plotTitle = locusName',
                xaxisTitle = ''Allele ID'',
                yaxisTitle = ''Sequence Size (bp)'',
                layoutProps = layoutPanelB',
                configOptions = configPanelB'\<rparr>,
             treePanel = TabPanel JUndefined JUndefined
               \<lparr>tree_source = phyloData', treeWidth = 600, treeHeight = 700\<rparr>,
             dnaEditor = joinedDNA',
             proteinEditor = joinedProtein'\<rparr>\<rparr>)))))))))))))))))"

text \<open>
  The Sequence Formatter by itself: the two statements of lines 154-161,
  \<^verbatim>\<open>sequences.map((seq) => ...)\<close> and \<^verbatim>\<open>.join('')\<close>, which the page runs on
  \<^verbatim>\<open>data.dna.sequences\<close> and, as lines 165-172, on \<^verbatim>\<open>data.protein.sequences\<close>.
\<close>

definition format_sequences :: "(real \<Rightarrow> string) \<Rightarrow> jsval \<Rightarrow> string result" where
  "format_sequences nstr sequences =
     bind_res (js_map (sequenceStr nstr) sequences) (\<lambda>texts. Inr (join_empty texts))"

section \<open>Reading the results\<close>

text \<open>
  A chart dataset is the array \<^verbatim>\<open>[trace]\<close> handed to the chart widget as
  \<^verbatim>\<open>plotData\<close>. Its series are the \<^verbatim>\<open>x\<close> and \<^verbatim>\<open>y\<close> properties of that one trace; its
  points are the index-paired entries of the two series.
\<close>

definition series_x :: "jsval \<Rightarrow> jsval result" where
  "series_x plot = bind_res (get_index plot 0) (\<lambda>trace. get_field trace ''x'')"

definition series_y :: "jsval \<Rightarrow> jsval result" where
  "series_y plot = bind_res (get_index plot 0) (\<lambda>trace. get_field trace ''y'')"

fun paired :: "jsval result \<Rightarrow> jsval result \<Rightarrow> (jsval \<times> jsval) list" where
  "paired (Inr (JArr xs)) (Inr (JArr ys)) = zip xs ys"
| "paired sx sy = []"

definition points :: "jsval \<Rightarrow> (jsval \<times> jsval) list" where
  "points plot = paired (series_x plot) (series_y plot)"

text \<open>
  The locus display name of a bundle is the cell read at line 73,
  \<^verbatim>\<open>data.summaryData[1].rows[0][0]\<close>.
\<close>

definition locus_cell :: "jsval \<Rightarrow> jsval result" where
  "locus_cell data =
     bind_res (get_field data ''summaryData'') (\<lambda>summaryData'.
     bind_res (get_index summaryData' 1) (\<lambda>section1.
     bind_res (get_field section1 ''rows'') (\<lambda>rows.
     bind_res (get_index rows 0) (\<lambda>row0.
     get_index row0 0))))"

text \<open>The sequence records of a bundle: \<^verbatim>\<open>data.dna.sequences\<close>, \<^verbatim>\<open>data.protein.sequences\<close>.\<close>

definition sequences_of :: "jsval \<Rightarrow> string \<Rightarrow> jsval result" where
  "sequences_of data k = bind_res (get_field data k) (\<lambda>d. get_field d ''sequences'')"

text \<open>
  \<open>is_record v r\<close>: the value \<open>v\<close> is a sequence record whose \<^verbatim>\<open>name\<close> and
  \<^verbatim>\<open>sequence\<close> are the two strings of the pair \<open>r\<close>.
\<close>

definition is_record :: "jsval \<Rightarrow> string \<times> string \<Rightarrow> bool" where
  "is_record v r =
     (get_field v ''name'' = Inr (JStr (fst r)) \<and> get_field v ''sequence'' = Inr (JStr (snd r)))"

definition rec_obj :: "string \<times> string \<Rightarrow> jsval" where
  "rec_obj r = JObj [(''name'', JStr (fst r)), (''sequence'', JStr (snd r))]"

subsection \<open>The other parts of a bundle\<close>

text \<open>
  A claim about one part of the page is about bundles whose other parts the page can
  read: the locus-name cell can be read and spelled, the tree description can be read,
  the records of a kind can be read and formatted. Each is a condition on the bundle
  alone.
\<close>

fun succeeds :: "'a result \<Rightarrow> bool" where
  "succeeds (Inr v) = True"
| "succeeds (Inl e) = False"

definition summary_readable :: "(real \<Rightarrow> string) \<Rightarrow> jsval \<Rightarrow> bool" where
  "summary_readable nstr data = succeeds (bind_res (locus_cell data) (to_str nstr))"

definition tree_readable :: "jsval \<Rightarrow> bool" where
  "tree_readable data =
     succeeds (bind_res (get_field data ''phylo'') (\<lambda>phylo. get_field phylo ''phylo_data''))"

definition sequences_formattable :: "(real \<Rightarrow> string) \<Rightarrow> jsval \<Rightarrow> string \<Rightarrow> bool" where
  "sequences_formattable nstr data k =
     succeeds (bind_res (sequences_of data k) (format_sequences nstr))"

subsection \<open>The text format as the specification words it\<close>

text \<open>
  One entry per record: the marker \<open>>\<close>, the name, a line terminator, the sequence, a
  line terminator; the block is the entries in input order with nothing between them.
\<close>

definition spec_entry :: "string \<times> string \<Rightarrow> string" where
  "spec_entry r = CHR ''>'' # fst r @ CHR ''\<newline>'' # snd r @ [CHR ''\<newline>'']"

definition spec_block :: "(string \<times> string) list \<Rightarrow> string" where
  "spec_block rs = concat (map spec_entry rs)"

text \<open>
  Reading a block back, splitting it on the marker character and on the line
  terminators: the pieces between markers are the entries, after an empty piece in front
  of the first marker; an entry splits at its line terminators into the name, the
  sequence and the empty piece after its last terminator.
\<close>

fun split_on :: "char \<Rightarrow> string \<Rightarrow> string list" where
  "split_on c [] = [[]]"
| "split_on c (x # xs) =
     (if x = c then [] # split_on c xs
      else (case split_on c xs of [] \<Rightarrow> [[x]] | p # ps \<Rightarrow> (x # p) # ps))"

fun record_of_lines :: "string list \<Rightarrow> (string \<times> string) option" where
  "record_of_lines [name, sequence, []] = Some (name, sequence)"
| "record_of_lines pieces = None"

definition spec_read_entry :: "string \<Rightarrow> (string \<times> string) option" where
  "spec_read_entry entry = record_of_lines (split_on CHR ''\<newline>'' entry)"

definition spec_read_block :: "string \<Rightarrow> (string \<times> string) list option" where
  "spec_read_block text =
     (let pieces = split_on CHR ''>'' text
      in if hd pieces = [] then those (map spec_read_entry (tl pieces)) else None)"

text \<open>An entry without its marker.\<close>

definition entry_body :: "string \<times> string \<Rightarrow> string" where
  "entry_body r = fst r @ CHR ''\<newline>'' # snd r @ [CHR ''\<newline>'']"

text \<open>The two characters the format gives a meaning to.\<close>

definition separators :: "char set" where
  "separators = {CHR ''\<newline>'', CHR ''>''}"

subsection \<open>Bundles with a field left out\<close>

definition without :: "string \<Rightarrow> (string \<times> jsval) list \<Rightarrow> (string \<times> jsval) list" where
  "without k kvs = filter (\<lambda>kv. fst kv \<noteq> k) kvs"

subsection \<open>An example bundle\<close>

text \<open>
  The spelling of a non-negative whole number below \<open>10\<^sup>2\<^sup>1\<close>, where JavaScript
  writes plain decimal digits; it stands for the number spelling when the page is run on
  the examples below.
\<close>

definition nat_spelling :: "real \<Rightarrow> string" where
  "nat_spelling r = index_key (nat \<lfloor>r\<rfloor>)"

text \<open>
  Locus \<^verbatim>\<open>gene_X\<close> with three alleles of sizes 150, 153 and 150; the DNA records are a
  parameter.
\<close>

definition gene_X_summary :: jsval where
  "gene_X_summary = JArr
     [JObj [(''columns'', JArr [JStr ''Total alleles'']), (''rows'', JArr [JArr [JNum 3]])],
      JObj [(''columns'', JArr [JStr ''Locus'', JStr ''Alleles'']),
            (''rows'', JArr [JArr [JStr ''gene_X'', JNum 3]])]]"

definition gene_X_fields :: "jsval \<Rightarrow> (string \<times> jsval) list" where
  "gene_X_fields dnaSequences =
     [(''summaryData'', gene_X_summary),
      (''lengths'', JArr [JNum 150, JNum 153, JNum 150]),
      (''ids'', JArr [JStr ''allele_1'', JStr ''allele_2'', JStr ''allele_3'']),
      (''phylo'', JObj [(''phylo_data'', JStr ''(allele_1,allele_2,allele_3);'')]),
      (''dna'', JObj [(''sequences'', dnaSequences)]),
      (''protein'', JObj [(''sequences'', JArr [rec_obj (''allele_1'', ''MK'')])])]"

definition gene_X_bundle :: jsval where
  "gene_X_bundle = JObj (gene_X_fields (JArr [rec_obj (''allele_1'', ''ATGC'')]))"

text \<open>The same summary table with no cell in the row that holds the locus name.\<close>

definition gene_X_summary_no_cell :: jsval where
  "gene_X_summary_no_cell = JArr
     [JObj [(''columns'', JArr [JStr ''Total alleles'']), (''rows'', JArr [JArr [JNum 3]])],
      JObj [(''columns'', JArr [JStr ''Locus'', JStr ''Alleles'']), (''rows'', JArr [JArr []])]]"

text \<open>The same summary table with no row at all in that section.\<close>

definition gene_X_summary_no_row :: jsval where
  "gene_X_summary_no_row = JArr
     [JObj [(''columns'', JArr [JStr ''Total alleles'']), (''rows'', JArr [JArr [JNum 3]])],
      JObj [(''columns'', JArr [JStr ''Locus'', JStr ''Alleles'']), (''rows'', JArr [])]]"

text \<open>The same locus with three DNA records and two protein records.\<close>

definition gene_X_dna :: "(string \<times> string) list" where
  "gene_X_dna = [(''allele_1'', ''ATGC''), (''allele_2'', ''ATGCAT''), (''allele_3'', ''ATGA'')]"

definition gene_X_protein :: "(string \<times> string) list" where
  "gene_X_protein = [(''allele_1'', ''MK''), (''allele_2'', ''M'')]"

definition gene_X_records_bundle :: jsval where
  "gene_X_records_bundle = JObj
     ((''protein'', JObj [(''sequences'', JArr (map rec_obj gene_X_protein))]) #
      gene_X_fields (JArr (map rec_obj gene_X_dna)))"

definition gene_X_records_page :: page where
  "gene_X_records_page = projr (LocusPage nat_spelling (JNum 0) gene_X_records_bundle)"

text \<open>A locus with no allele: no lengths, no identifiers, no records.\<close>

definition no_alleles_bundle :: jsval where
  "no_alleles_bundle = JObj
     ((''lengths'', JArr []) # (''ids'', JArr []) #
      (''protein'', JObj [(''sequences'', JArr [])]) # gene_X_fields (JArr []))"

definition no_alleles_page :: page where
  "no_alleles_page = projr (LocusPage nat_spelling (JNum 0) no_alleles_bundle)"

text \<open>The page that the component computes from it while the first tab is selected.\<close>

definition gene_X_page :: page where
  "gene_X_page = projr (LocusPage nat_spelling (JNum 0) gene_X_bundle)"

subsection \<open>The report model\<close>

text \<open>
  What the page hands on apart from the tab selection: the summary table, the two chart
  datasets with layout and export configuration, the tree description, the two text
  blocks, and the same as the table, tree and text widgets receive them.
\<close>

definition report_model ::
  "page \<Rightarrow> jsval \<times> (jsval \<times> jsval \<times> jsval) \<times> (jsval \<times> jsval \<times> jsval) \<times> jsval \<times> string \<times> string" where
  "report_model pg =
     (summaryData pg,
      (plotDataPanelA pg, layoutPanelA pg, configPanelA pg),
      (plotDataPanelB pg, layoutPanelB pg, configPanelB pg),
      phyloData pg, joinedDNA pg, joinedProtein pg)"

definition widget_data :: "page \<Rightarrow> jsval \<times> tree_props tab_panel \<times> string \<times> string" where
  "widget_data pg =
     (tableData (rendered pg), treePanel (rendered pg),
      dnaEditor (rendered pg), proteinEditor (rendered pg))"

section \<open>Basic facts\<close>

lemma bind_res_Inr [simp]: "bind_res (Inr v) f = f v"
  by (simp add: bind_res_def)

lemma bind_res_Inl [simp]: "bind_res (Inl e) f = Inl e"
  by (simp add: bind_res_def)

lemma bind_res_eq_Inr: "bind_res m f = Inr y \<longleftrightarrow> (\<exists>v. m = Inr v \<and> f v = Inr y)"
  by (cases m) simp_all

text \<open>The continuation matters only where the first computation has returned.\<close>

lemma bind_res_cong [cong]:
  "m = m' \<Longrightarrow> (\<And>v. m' = Inr v \<Longrightarrow> f v = f' v) \<Longrightarrow> bind_res m f = bind_res m' f'"
  by (cases m') simp_all

lemma map_sum_bind_res:
  "map_sum id g (bind_res m f) = bind_res m (\<lambda>v. map_sum id g (f v))"
  by (cases m) simp_all

lemma join_with_Nil: "join_with [] ss = concat ss"
  by (induction "[] :: string" ss rule: join_with.induct) simp_all

lemma get_field_without_same: "get_field (JObj (without k kvs)) k = Inr JUndefined"
proof -
  have "map_of (without k kvs) k = None"
    by (induction kvs) (auto simp: without_def)
  then show ?thesis by simp
qed

lemma get_field_without_other:
  "k' \<noteq> k \<Longrightarrow> get_field (JObj (without k kvs)) k' = get_field (JObj kvs) k'"
proof -
  assume "k' \<noteq> k"
  then have "map_of (without k kvs) k' = map_of kvs k'"
    by (induction kvs) (auto simp: without_def)
  then show ?thesis by simp
qed

lemma index_key_0: "index_key 0 = ''0''"
  by (simp add: digit_char_def)

lemma index_key_1: "index_key 1 = ''1''"
  by (simp add: digit_char_def)

section \<open>What a run that does not throw has read and computed\<close>

lemma LocusPage_InrD:
  assumes "LocusPage nstr panel data = Inr pg"
  obtains sd s1 rows row0 lname L nameText I ph pd dna dseq dtext prot pseq ptext where
    "get_field data ''summaryData'' = Inr sd"
    "get_index sd 1 = Inr s1"
    "get_field s1 ''rows'' = Inr rows"
    "get_index rows 0 = Inr row0"
    "get_index row0 0 = Inr lname"
    "get_field data ''lengths'' = Inr L"
    "to_str nstr lname = Inr nameText"
    "get_field data ''ids'' = Inr I"
    "get_field data ''phylo'' = Inr ph"
    "get_field ph ''phylo_data'' = Inr pd"
    "get_field data ''dna'' = Inr dna"
    "get_field dna ''sequences'' = Inr dseq"
    "js_map (sequenceStr nstr) dseq = Inr dtext"
    "get_field data ''protein'' = Inr prot"
    "get_field prot ''sequences'' = Inr pseq"
    "js_map (sequenceStr nstr) pseq = Inr ptext"
    "summaryData pg = sd"
    "locusName pg = lname"
    "plotDataPanelA pg = JArr
       [JObj
          [(''x'', L),
           (''y'', L),
           (''type'', JStr ''histogram''),
           (''name'', lname),
           (''marker'', JObj
              [(''color'', JStr ''#0570b0''),
               (''line'', JObj [(''color'', JStr ''#a6bddb''), (''width'', JNum 1)])])]]"
    "plotDataPanelB pg = JArr
       [JObj
          [(''x'', I),
           (''y'', L),
           (''type'', JStr ''scatter''),
           (''name'', JStr ''Distribution of allele mode sizes per gene''),
           (''mode'', JStr ''markers''),
           (''marker'', JObj [(''color'', JStr ''#0570b0'')])]]"
    "configPanelA pg = JObj
       [(''toImageButtonOptions'', JObj
           [(''format'', JStr ''svg''),
            (''filename'', JStr (nameText @ ''_AlleleSizes'')),
            (''height'', JNum 500),
            (''width'', JNum 700),
            (''scale'', JNum 1)])]"
    "configPanelB pg = JObj
       [(''toImageButtonOptions'', JObj
           [(''format'', JStr ''svg''),
            (''filename'', JStr ''AlleleModeSize''),
            (''height'', JNum 500),
            (''width'', JNum 700),
            (''scale'', JNum 1)])]"
    "phyloData pg = pd"
    "joinedDNA pg = join_empty dtext"
    "joinedProtein pg = join_empty ptext"
    "treePanel (rendered pg) =
       TabPanel JUndefined JUndefined \<lparr>tree_source = pd, treeWidth = 600, treeHeight = 700\<rparr>"
  using assms unfolding LocusPage_def Let_def bind_res_eq_Inr
  by (elim exE conjE) auto

section \<open>The sequence formatter\<close>

lemma sequenceStr_record: "is_record v r \<Longrightarrow> sequenceStr nstr v = Inr (spec_entry r)"
  by (simp add: is_record_def sequenceStr_def spec_entry_def)

lemma sequence_res_records:
  "list_all2 is_record vs rs \<Longrightarrow>
   sequence_res (map (sequenceStr nstr) vs) = Inr (map spec_entry rs)"
  by (induction vs rs rule: list_all2_induct) (simp_all add: sequenceStr_record)

lemma format_sequences_records:
  "list_all2 is_record vs rs \<Longrightarrow> format_sequences nstr (JArr vs) = Inr (spec_block rs)"
  by (simp add: format_sequences_def sequence_res_records join_empty_def join_with_Nil
      spec_block_def)

subsection \<open>Reading a block back\<close>

lemma split_on_not_Nil: "split_on c s \<noteq> []"
  by (induction s) (auto split: list.splits)

lemma split_on_line:
  "c \<notin> set l \<Longrightarrow> split_on c (l @ c # rest) = l # split_on c rest"
  by (induction l) (auto split: list.splits simp: split_on_not_Nil)

lemma split_on_prefix:
  "c \<notin> set l \<Longrightarrow> split_on c (l @ rest) = (l @ hd (split_on c rest)) # tl (split_on c rest)"
  by (induction l) (auto split: list.splits simp: split_on_not_Nil)

lemma split_on_marker_block:
  assumes "\<forall>r \<in> set rs. CHR ''>'' \<notin> set (fst r) \<and> CHR ''>'' \<notin> set (snd r)"
  shows "split_on CHR ''>'' (spec_block rs) = [] # map entry_body rs"
  using assms
proof (induction rs)
  case Nil
  then show ?case by (simp add: spec_block_def)
next
  case (Cons r rs)
  have body: "CHR ''>'' \<notin> set (entry_body r)"
    using Cons.prems by (simp add: entry_body_def)
  have "spec_block (r # rs) = CHR ''>'' # (entry_body r @ spec_block rs)"
    by (simp add: spec_block_def spec_entry_def entry_body_def)
  then have "split_on CHR ''>'' (spec_block (r # rs)) =
      [] # split_on CHR ''>'' (entry_body r @ spec_block rs)"
    by simp
  also have "split_on CHR ''>'' (entry_body r @ spec_block rs) = entry_body r # map entry_body rs"
    using split_on_prefix [OF body, of "spec_block rs"] Cons by simp
  finally show ?case by simp
qed

lemma spec_read_entry_body:
  assumes "CHR ''\<newline>'' \<notin> set (fst r)" and "CHR ''\<newline>'' \<notin> set (snd r)"
  shows "spec_read_entry (entry_body r) = Some r"
proof -
  have "split_on CHR ''\<newline>'' (entry_body r) = [fst r, snd r, []]"
    using split_on_line [OF assms(1)] split_on_line [OF assms(2), of "[]"]
    by (simp add: entry_body_def)
  then show ?thesis by (simp add: spec_read_entry_def)
qed

lemma those_read_entries:
  "\<forall>r \<in> set rs. CHR ''\<newline>'' \<notin> set (fst r) \<and> CHR ''\<newline>'' \<notin> set (snd r) \<Longrightarrow>
   those (map spec_read_entry (map entry_body rs)) = Some rs"
  by (induction rs) (simp_all add: spec_read_entry_body)

lemma read_spec_block:
  assumes "\<forall>r \<in> set rs. \<forall>c \<in> separators. c \<notin> set (fst r) \<and> c \<notin> set (snd r)"
  shows "spec_read_block (spec_block rs) = Some rs"
proof -
  from assms have m: "\<forall>r \<in> set rs. CHR ''>'' \<notin> set (fst r) \<and> CHR ''>'' \<notin> set (snd r)"
    and t: "\<forall>r \<in> set rs. CHR ''\<newline>'' \<notin> set (fst r) \<and> CHR ''\<newline>'' \<notin> set (snd r)"
    by (simp_all add: separators_def)
  show ?thesis
    using those_read_entries [OF t]
    by (simp add: spec_read_block_def split_on_marker_block [OF m])
qed

section \<open>The example\<close>

lemmas example_defs =
  gene_X_page_def gene_X_bundle_def gene_X_fields_def gene_X_summary_def rec_obj_def
  LocusPage_def sequenceStr_def join_empty_def TabPanel_def digit_char_def Let_def
  without_def

lemmas shape_defs =
  summary_readable_def tree_readable_def sequences_formattable_def sequences_of_def
  locus_cell_def format_sequences_def sequenceStr_def join_empty_def gene_X_fields_def
  gene_X_summary_def gene_X_dna_def gene_X_protein_def rec_obj_def digit_char_def

lemma gene_X_run: "LocusPage nat_spelling (JNum 0) gene_X_bundle = Inr gene_X_page"
  by (simp add: example_defs)


lemma after_changes_last: "after_changes p evs = last (p # map snd evs)"
  by (induction p evs rule: after_changes.induct) (simp_all add: handleChange_def setPanel_def)

lemma LocusPage_reads:
  assumes "get_field data ''summaryData'' = Inr sd"
    "get_index sd 1 = Inr s1"
    "get_field s1 ''rows'' = Inr rows"
    "get_index rows 0 = Inr row0"
    "get_index row0 0 = Inr lname"
    "to_str nstr lname = Inr nameText"
    "get_field data ''phylo'' = Inr ph"
    "get_field ph ''phylo_data'' = Inr pd"
    "get_field data ''dna'' = Inr dna"
    "get_field dna ''sequences'' = Inr dseq"
    "js_map (sequenceStr nstr) dseq = Inr dtext"
    "get_field data ''protein'' = Inr prot"
    "get_field prot ''sequences'' = Inr pseq"
    "js_map (sequenceStr nstr) pseq = Inr ptext"
  shows "\<exists>pg. LocusPage nstr panel data = Inr pg
    \<and> locusName pg = lname
    \<and> series_x (plotDataPanelA pg) = get_field data ''lengths''
    \<and> series_y (plotDataPanelA pg) = get_field data ''lengths''
    \<and> series_x (plotDataPanelB pg) = get_field data ''ids''
    \<and> series_y (plotDataPanelB pg) = get_field data ''lengths''
    \<and> configPanelA pg = JObj
       [(''toImageButtonOptions'', JObj
           [(''format'', JStr ''svg''),
            (''filename'', JStr (nameText @ ''_AlleleSizes'')),
            (''height'', JNum 500),
            (''width'', JNum 700),
            (''scale'', JNum 1)])]"
proof -
  from assms(1) obtain L I where "get_field data ''lengths'' = Inr L" "get_field data ''ids'' = Inr I"
    by (cases data) auto
  with assms show ?thesis
    by (simp add: LocusPage_def Let_def series_x_def series_y_def)
qed

lemma succeeds_bind_res:
  "succeeds (bind_res m f) \<longleftrightarrow> (\<exists>v w. m = Inr v \<and> f v = Inr w)"
  by (cases m; cases "f (projr m)") auto

lemma LocusPage_composes:
  assumes "summary_readable nstr data" and "tree_readable data"
    and "sequences_of data ''dna'' = Inr dseq" and "format_sequences nstr dseq = Inr dtext"
    and "sequences_of data ''protein'' = Inr pseq" and "format_sequences nstr pseq = Inr ptext"
  shows "\<exists>pg. LocusPage nstr panel data = Inr pg
    \<and> joinedDNA pg = dtext \<and> dnaEditor (rendered pg) = dtext
    \<and> joinedProtein pg = ptext \<and> proteinEditor (rendered pg) = ptext
    \<and> series_x (plotDataPanelA pg) = get_field data ''lengths''
    \<and> series_y (plotDataPanelA pg) = get_field data ''lengths''
    \<and> series_x (plotDataPanelB pg) = get_field data ''ids''
    \<and> series_y (plotDataPanelB pg) = get_field data ''lengths''"
proof -
  from assms(1) obtain sd s1 rows row0 lname nameText where
    summary: "get_field data ''summaryData'' = Inr sd" "get_index sd 1 = Inr s1"
      "get_field s1 ''rows'' = Inr rows" "get_index rows 0 = Inr row0"
      "get_index row0 0 = Inr lname" "to_str nstr lname = Inr nameText"
    by (auto simp: summary_readable_def succeeds_bind_res locus_cell_def bind_res_eq_Inr)
  from assms(2) obtain ph pd where
    tree: "get_field data ''phylo'' = Inr ph" "get_field ph ''phylo_data'' = Inr pd"
    by (auto simp: tree_readable_def succeeds_bind_res)
  from assms(3,4) obtain dna dtexts where
    dna: "get_field data ''dna'' = Inr dna" "get_field dna ''sequences'' = Inr dseq"
      "js_map (sequenceStr nstr) dseq = Inr dtexts" "dtext = join_empty dtexts"
    by (auto simp: sequences_of_def format_sequences_def bind_res_eq_Inr)
  from assms(5,6) obtain prot ptexts where
    prot: "get_field data ''protein'' = Inr prot" "get_field prot ''sequences'' = Inr pseq"
      "js_map (sequenceStr nstr) pseq = Inr ptexts" "ptext = join_empty ptexts"
    by (auto simp: sequences_of_def format_sequences_def bind_res_eq_Inr)
  from summary(1) obtain L I where
    "get_field data ''lengths'' = Inr L" "get_field data ''ids'' = Inr I"
    by (cases data) auto
  with summary tree dna prot show ?thesis
    by (simp add: LocusPage_def Let_def series_x_def series_y_def)
qed

lemma formattable_iff:
  "sequences_formattable nstr data k \<longleftrightarrow>
   (\<exists>seqs text. sequences_of data k = Inr seqs \<and> format_sequences nstr seqs = Inr text)"
  by (simp add: sequences_formattable_def succeeds_bind_res)

section \<open>The claims\<close>

text \<open>
  \<^bold>\<open>C1.\<close> For every bundle whose \<^verbatim>\<open>lengths\<close> and \<^verbatim>\<open>ids\<close> are arrays of \<open>N\<close> entries
  and whose other parts the page can read, the page is produced, with a
  length-distribution dataset and an identifier-vs-length dataset of exactly \<open>N\<close> points
  each; point \<open>i\<close> of the latter is the pair of \<open>ids[i]\<close> and \<open>lengths[i]\<close>, and the former
  has the \<^verbatim>\<open>lengths\<close> array itself as its \<^verbatim>\<open>x\<close> series (the binned values) and as its
  \<^verbatim>\<open>y\<close> series (the raw samples). \<open>N\<close> may be 0.
\<close>

theorem plot_dataset_points:
  assumes "get_field data ''lengths'' = Inr (JArr ls)"
    and "get_field data ''ids'' = Inr (JArr ids)"
    and "length ls = N" and "length ids = N"
    and "summary_readable nstr data" and "tree_readable data"
    and "sequences_formattable nstr data ''dna''"
    and "sequences_formattable nstr data ''protein''"
  shows "\<exists>pg. LocusPage nstr panel data = Inr pg
    \<and> length (points (plotDataPanelA pg)) = N
    \<and> length (points (plotDataPanelB pg)) = N
    \<and> (\<forall>i < N. points (plotDataPanelB pg) ! i = (ids ! i, ls ! i))
    \<and> series_x (plotDataPanelA pg) = Inr (JArr ls)
    \<and> series_y (plotDataPanelA pg) = Inr (JArr ls)"
proof -
  from assms(7,8) obtain dseq dtext pseq ptext where
    "sequences_of data ''dna'' = Inr dseq" "format_sequences nstr dseq = Inr dtext"
    "sequences_of data ''protein'' = Inr pseq" "format_sequences nstr pseq = Inr ptext"
    by (auto simp: formattable_iff)
  from LocusPage_composes [OF assms(5,6) this, of panel] obtain pg where
    "LocusPage nstr panel data = Inr pg"
    "series_x (plotDataPanelA pg) = get_field data ''lengths''"
    "series_y (plotDataPanelA pg) = get_field data ''lengths''"
    "series_x (plotDataPanelB pg) = get_field data ''ids''"
    "series_y (plotDataPanelB pg) = get_field data ''lengths''"
    by blast
  with assms(1-4) show ?thesis
    by (simp add: points_def)
qed

theorem plot_dataset_points_witness:
  "get_field gene_X_bundle ''lengths'' = Inr (JArr [JNum 150, JNum 153, JNum 150])
   \<and> get_field gene_X_bundle ''ids'' = Inr (JArr [JStr ''allele_1'', JStr ''allele_2'', JStr ''allele_3''])
   \<and> summary_readable nat_spelling gene_X_bundle \<and> tree_readable gene_X_bundle
   \<and> sequences_formattable nat_spelling gene_X_bundle ''dna''
   \<and> sequences_formattable nat_spelling gene_X_bundle ''protein''
   \<and> LocusPage nat_spelling (JNum 0) gene_X_bundle = Inr gene_X_page
   \<and> length (points (plotDataPanelA gene_X_page)) = 3
   \<and> length (points (plotDataPanelB gene_X_page)) = 3
   \<and> points (plotDataPanelB gene_X_page) ! 0 = (JStr ''allele_1'', JNum 150)
   \<and> points (plotDataPanelB gene_X_page) ! 1 = (JStr ''allele_2'', JNum 153)
   \<and> points (plotDataPanelB gene_X_page) ! 2 = (JStr ''allele_3'', JNum 150)
   \<and> series_x (plotDataPanelA gene_X_page) = Inr (JArr [JNum 150, JNum 153, JNum 150])
   \<and> series_y (plotDataPanelA gene_X_page) = Inr (JArr [JNum 150, JNum 153, JNum 150])
   \<and> get_field no_alleles_bundle ''lengths'' = Inr (JArr [])
   \<and> get_field no_alleles_bundle ''ids'' = Inr (JArr [])
   \<and> summary_readable nat_spelling no_alleles_bundle \<and> tree_readable no_alleles_bundle
   \<and> sequences_formattable nat_spelling no_alleles_bundle ''dna''
   \<and> sequences_formattable nat_spelling no_alleles_bundle ''protein''
   \<and> LocusPage nat_spelling (JNum 0) no_alleles_bundle = Inr no_alleles_page
   \<and> points (plotDataPanelA no_alleles_page) = []
   \<and> points (plotDataPanelB no_alleles_page) = []
   \<and> series_x (plotDataPanelA no_alleles_page) = Inr (JArr [])
   \<and> series_y (plotDataPanelA no_alleles_page) = Inr (JArr [])"
proof -
  have ls: "get_field gene_X_bundle ''lengths'' = Inr (JArr [JNum 150, JNum 153, JNum 150])"
    and ids: "get_field gene_X_bundle ''ids'' =
      Inr (JArr [JStr ''allele_1'', JStr ''allele_2'', JStr ''allele_3''])"
    by (simp_all add: gene_X_bundle_def gene_X_fields_def)
  have rest: "summary_readable nat_spelling gene_X_bundle" "tree_readable gene_X_bundle"
    "sequences_formattable nat_spelling gene_X_bundle ''dna''"
    "sequences_formattable nat_spelling gene_X_bundle ''protein''"
    by (simp_all add: shape_defs gene_X_bundle_def)
  have three: "\<And>P. (\<forall>i<3::nat. P i) \<Longrightarrow> P 0 \<and> P 1 \<and> P 2"
    by simp
  from plot_dataset_points [OF ls ids _ _ rest, of 3 "JNum 0"] obtain pg where
    pg: "LocusPage nat_spelling (JNum 0) gene_X_bundle = Inr pg"
    and "length (points (plotDataPanelA pg)) = 3 \<and> length (points (plotDataPanelB pg)) = 3
      \<and> (\<forall>i < 3. points (plotDataPanelB pg) ! i =
           ([JStr ''allele_1'', JStr ''allele_2'', JStr ''allele_3''] ! i,
            [JNum 150, JNum 153, JNum 150] ! i))
      \<and> series_x (plotDataPanelA pg) = Inr (JArr [JNum 150, JNum 153, JNum 150])
      \<and> series_y (plotDataPanelA pg) = Inr (JArr [JNum 150, JNum 153, JNum 150])"
    by auto
  moreover from pg have "gene_X_page = pg"
    by (simp add: gene_X_page_def)
  ultimately have full: "LocusPage nat_spelling (JNum 0) gene_X_bundle = Inr gene_X_page
      \<and> length (points (plotDataPanelA gene_X_page)) = 3
      \<and> length (points (plotDataPanelB gene_X_page)) = 3
      \<and> points (plotDataPanelB gene_X_page) ! 0 = (JStr ''allele_1'', JNum 150)
      \<and> points (plotDataPanelB gene_X_page) ! 1 = (JStr ''allele_2'', JNum 153)
      \<and> points (plotDataPanelB gene_X_page) ! 2 = (JStr ''allele_3'', JNum 150)
      \<and> series_x (plotDataPanelA gene_X_page) = Inr (JArr [JNum 150, JNum 153, JNum 150])
      \<and> series_y (plotDataPanelA gene_X_page) = Inr (JArr [JNum 150, JNum 153, JNum 150])"
    using three by simp
  have ls0: "get_field no_alleles_bundle ''lengths'' = Inr (JArr [])"
    and ids0: "get_field no_alleles_bundle ''ids'' = Inr (JArr [])"
    by (simp_all add: no_alleles_bundle_def)
  have rest0: "summary_readable nat_spelling no_alleles_bundle" "tree_readable no_alleles_bundle"
    "sequences_formattable nat_spelling no_alleles_bundle ''dna''"
    "sequences_formattable nat_spelling no_alleles_bundle ''protein''"
    by (simp_all add: shape_defs no_alleles_bundle_def)
  from plot_dataset_points [OF ls0 ids0 _ _ rest0, of 0 "JNum 0"] obtain pg0 where
    pg0: "LocusPage nat_spelling (JNum 0) no_alleles_bundle = Inr pg0"
    and "length (points (plotDataPanelA pg0)) = 0 \<and> length (points (plotDataPanelB pg0)) = 0
      \<and> series_x (plotDataPanelA pg0) = Inr (JArr [])
      \<and> series_y (plotDataPanelA pg0) = Inr (JArr [])"
    by auto
  moreover from pg0 have "no_alleles_page = pg0"
    by (simp add: no_alleles_page_def)
  ultimately have empty: "LocusPage nat_spelling (JNum 0) no_alleles_bundle = Inr no_alleles_page
      \<and> points (plotDataPanelA no_alleles_page) = []
      \<and> points (plotDataPanelB no_alleles_page) = []
      \<and> series_x (plotDataPanelA no_alleles_page) = Inr (JArr [])
      \<and> series_y (plotDataPanelA no_alleles_page) = Inr (JArr [])"
    by simp
  from ls ids rest full ls0 ids0 rest0 empty show ?thesis
    by simp
qed

text \<open>
  \<^bold>\<open>C2.\<close> For every list of sequence records with string names and sequences, the
  Sequence Formatter returns the concatenation, in input order and with nothing in
  between, of one entry per record: the marker \<open>>\<close>, the name, a line terminator, the
  sequence, a line terminator. The empty list gives the empty block, and the single
  record \<^verbatim>\<open>allele_1\<close> / \<^verbatim>\<open>ATGC\<close> gives the two lines \<^verbatim>\<open>>allele_1\<close> and \<^verbatim>\<open>ATGC\<close>, each
  terminated. The page, produced from every bundle whose other parts it can read, has
  that block as its DNA text when the list is \<^verbatim>\<open>data.dna.sequences\<close>, and as its protein
  text when the list is \<^verbatim>\<open>data.protein.sequences\<close>.
\<close>

theorem sequence_formatter:
  assumes "list_all2 is_record vs rs"
  shows "format_sequences nstr (JArr vs) = Inr (concat (map spec_entry rs))
    \<and> spec_entry (name, sequence) = ''>'' @ name @ ''\<newline>'' @ sequence @ ''\<newline>''
    \<and> format_sequences nstr (JArr []) = Inr []
    \<and> format_sequences nstr (JArr [rec_obj (''allele_1'', ''ATGC'')]) =
        Inr ''>allele_1\<newline>ATGC\<newline>''
    \<and> (summary_readable nstr data \<and> tree_readable data
        \<and> sequences_of data ''dna'' = Inr (JArr vs)
        \<and> sequences_formattable nstr data ''protein'' \<longrightarrow>
        (\<exists>pg. LocusPage nstr panel data = Inr pg
           \<and> joinedDNA pg = concat (map spec_entry rs)
           \<and> dnaEditor (rendered pg) = concat (map spec_entry rs)))
    \<and> (summary_readable nstr data \<and> tree_readable data
        \<and> sequences_formattable nstr data ''dna''
        \<and> sequences_of data ''protein'' = Inr (JArr vs) \<longrightarrow>
        (\<exists>pg. LocusPage nstr panel data = Inr pg
           \<and> joinedProtein pg = concat (map spec_entry rs)
           \<and> proteinEditor (rendered pg) = concat (map spec_entry rs)))"
proof -
  have block: "format_sequences nstr (JArr vs) = Inr (concat (map spec_entry rs))"
    using format_sequences_records [OF assms] by (simp add: spec_block_def)
  have entry: "spec_entry (name, sequence) = ''>'' @ name @ ''\<newline>'' @ sequence @ ''\<newline>''"
    by (simp add: spec_entry_def)
  have none: "format_sequences nstr (JArr []) = Inr []"
    by (simp add: format_sequences_def join_empty_def)
  have one: "format_sequences nstr (JArr [rec_obj (''allele_1'', ''ATGC'')]) =
      Inr ''>allele_1\<newline>ATGC\<newline>''"
    by (simp add: format_sequences_def join_empty_def sequenceStr_def rec_obj_def)
  have dna: "\<exists>pg. LocusPage nstr panel data = Inr pg
      \<and> joinedDNA pg = concat (map spec_entry rs)
      \<and> dnaEditor (rendered pg) = concat (map spec_entry rs)"
    if "summary_readable nstr data" "tree_readable data"
      "sequences_of data ''dna'' = Inr (JArr vs)" "sequences_formattable nstr data ''protein''"
  proof -
    from that(4) obtain pseq ptext where
      p: "sequences_of data ''protein'' = Inr pseq" "format_sequences nstr pseq = Inr ptext"
      by (auto simp: formattable_iff)
    from LocusPage_composes [OF that(1,2,3) block p, of panel] show ?thesis
      by blast
  qed
  have protein: "\<exists>pg. LocusPage nstr panel data = Inr pg
      \<and> joinedProtein pg = concat (map spec_entry rs)
      \<and> proteinEditor (rendered pg) = concat (map spec_entry rs)"
    if "summary_readable nstr data" "tree_readable data"
      "sequences_formattable nstr data ''dna''" "sequences_of data ''protein'' = Inr (JArr vs)"
  proof -
    from that(3) obtain dseq dtext where
      d: "sequences_of data ''dna'' = Inr dseq" "format_sequences nstr dseq = Inr dtext"
      by (auto simp: formattable_iff)
    from LocusPage_composes [OF that(1,2) d that(4) block, of panel] show ?thesis
      by blast
  qed
  from block entry none one dna protein show ?thesis
    by blast
qed

theorem sequence_formatter_witness:
  "list_all2 is_record (map rec_obj gene_X_dna) gene_X_dna
   \<and> list_all2 is_record (map rec_obj gene_X_protein) gene_X_protein
   \<and> list_all2 is_record [] []
   \<and> summary_readable nat_spelling gene_X_records_bundle \<and> tree_readable gene_X_records_bundle
   \<and> sequences_of gene_X_records_bundle ''dna'' = Inr (JArr (map rec_obj gene_X_dna))
   \<and> sequences_of gene_X_records_bundle ''protein'' = Inr (JArr (map rec_obj gene_X_protein))
   \<and> sequences_formattable nat_spelling gene_X_records_bundle ''dna''
   \<and> sequences_formattable nat_spelling gene_X_records_bundle ''protein''
   \<and> format_sequences nat_spelling (JArr (map rec_obj gene_X_dna)) =
       Inr ''>allele_1\<newline>ATGC\<newline>>allele_2\<newline>ATGCAT\<newline>>allele_3\<newline>ATGA\<newline>''
   \<and> LocusPage nat_spelling (JNum 0) gene_X_records_bundle = Inr gene_X_records_page
   \<and> joinedDNA gene_X_records_page =
       ''>allele_1\<newline>ATGC\<newline>>allele_2\<newline>ATGCAT\<newline>>allele_3\<newline>ATGA\<newline>''
   \<and> joinedProtein gene_X_records_page = ''>allele_1\<newline>MK\<newline>>allele_2\<newline>M\<newline>''
   \<and> summary_readable nat_spelling no_alleles_bundle \<and> tree_readable no_alleles_bundle
   \<and> sequences_of no_alleles_bundle ''dna'' = Inr (JArr [])
   \<and> sequences_of no_alleles_bundle ''protein'' = Inr (JArr [])
   \<and> sequences_formattable nat_spelling no_alleles_bundle ''dna''
   \<and> sequences_formattable nat_spelling no_alleles_bundle ''protein''
   \<and> LocusPage nat_spelling (JNum 0) no_alleles_bundle = Inr no_alleles_page
   \<and> joinedDNA no_alleles_page = []
   \<and> joinedProtein no_alleles_page = []"
proof -
  have recs: "list_all2 is_record (map rec_obj gene_X_dna) gene_X_dna"
    "list_all2 is_record (map rec_obj gene_X_protein) gene_X_protein"
    "list_all2 is_record [] []"
    by (simp_all add: gene_X_dna_def gene_X_protein_def is_record_def rec_obj_def)
  have shape: "summary_readable nat_spelling gene_X_records_bundle"
    "tree_readable gene_X_records_bundle"
    "sequences_of gene_X_records_bundle ''dna'' = Inr (JArr (map rec_obj gene_X_dna))"
    "sequences_of gene_X_records_bundle ''protein'' = Inr (JArr (map rec_obj gene_X_protein))"
    "sequences_formattable nat_spelling gene_X_records_bundle ''dna''"
    "sequences_formattable nat_spelling gene_X_records_bundle ''protein''"
    by (simp_all add: shape_defs gene_X_records_bundle_def)
  have shape0: "summary_readable nat_spelling no_alleles_bundle"
    "tree_readable no_alleles_bundle"
    "sequences_of no_alleles_bundle ''dna'' = Inr (JArr [])"
    "sequences_of no_alleles_bundle ''protein'' = Inr (JArr [])"
    "sequences_formattable nat_spelling no_alleles_bundle ''dna''"
    "sequences_formattable nat_spelling no_alleles_bundle ''protein''"
    by (simp_all add: shape_defs no_alleles_bundle_def)
  note d = sequence_formatter [OF recs(1), of nat_spelling _ _ gene_X_records_bundle "JNum 0"]
  note p = sequence_formatter [OF recs(2), of nat_spelling _ _ gene_X_records_bundle "JNum 0"]
  note e = sequence_formatter [OF recs(3), of nat_spelling _ _ no_alleles_bundle "JNum 0"]
  have dna_text: "concat (map spec_entry gene_X_dna) =
      ''>allele_1\<newline>ATGC\<newline>>allele_2\<newline>ATGCAT\<newline>>allele_3\<newline>ATGA\<newline>''"
    and protein_text: "concat (map spec_entry gene_X_protein) =
      ''>allele_1\<newline>MK\<newline>>allele_2\<newline>M\<newline>''"
    by (simp_all add: gene_X_dna_def gene_X_protein_def spec_entry_def)
  from d dna_text have block: "format_sequences nat_spelling (JArr (map rec_obj gene_X_dna)) =
      Inr ''>allele_1\<newline>ATGC\<newline>>allele_2\<newline>ATGCAT\<newline>>allele_3\<newline>ATGA\<newline>''"
    by simp
  from d shape obtain pg where "LocusPage nat_spelling (JNum 0) gene_X_records_bundle = Inr pg"
    "joinedDNA pg = concat (map spec_entry gene_X_dna)"
    by blast
  moreover from p shape obtain pg' where
    "LocusPage nat_spelling (JNum 0) gene_X_records_bundle = Inr pg'"
    "joinedProtein pg' = concat (map spec_entry gene_X_protein)"
    by blast
  ultimately have full: "LocusPage nat_spelling (JNum 0) gene_X_records_bundle = Inr gene_X_records_page
      \<and> joinedDNA gene_X_records_page =
          ''>allele_1\<newline>ATGC\<newline>>allele_2\<newline>ATGCAT\<newline>>allele_3\<newline>ATGA\<newline>''
      \<and> joinedProtein gene_X_records_page = ''>allele_1\<newline>MK\<newline>>allele_2\<newline>M\<newline>''"
    using dna_text protein_text by (simp add: gene_X_records_page_def)
  from e shape0 obtain pg0 where "LocusPage nat_spelling (JNum 0) no_alleles_bundle = Inr pg0"
    "joinedDNA pg0 = concat (map spec_entry [])"
    by blast
  moreover from e shape0 obtain pg1 where
    "LocusPage nat_spelling (JNum 0) no_alleles_bundle = Inr pg1"
    "joinedProtein pg1 = concat (map spec_entry [])"
    by blast
  ultimately have empty: "LocusPage nat_spelling (JNum 0) no_alleles_bundle = Inr no_alleles_page
      \<and> joinedDNA no_alleles_page = [] \<and> joinedProtein no_alleles_page = []"
    by (simp add: no_alleles_page_def)
  from recs shape shape0 block full empty show ?thesis
    by simp
qed

text \<open>
  \<^bold>\<open>C3.\<close> The claim that no sequence of \<^verbatim>\<open>select(newIndex)\<close> calls can leave the two
  indices 0 and 1 does not hold: the handler stores whatever value it is given, so one
  call with 2 makes the panel value 2.
\<close>

theorem panel_out_of_range_counterexample:
  "after_changes initial_panel [((), JNum 2)] = JNum 2 \<and> JNum 2 \<notin> {JNum 0, JNum 1}"
  by (simp add: handleChange_def setPanel_def)

text \<open>
  \<^bold>\<open>C3.\<close> As amended: when every call passes 0 or 1, as the two tabs do, the panel
  value is 0 or 1 after any sequence of calls from the initial state.
\<close>

theorem panel_stays_in_range:
  assumes "\<forall>ev \<in> set evs. snd ev \<in> {JNum 0, JNum 1}"
  shows "after_changes initial_panel evs \<in> {JNum 0, JNum 1}"
proof (cases evs rule: rev_cases)
  case Nil
  then show ?thesis by (simp add: initial_panel_def)
next
  case (snoc evs' ev)
  with assms show ?thesis by (simp add: after_changes_last)
qed

theorem panel_stays_in_range_witness:
  "snd ((), JNum 1) \<in> {JNum 0, JNum 1} \<and> snd ((), JNum 0) \<in> {JNum 0, JNum 1}
   \<and> after_changes initial_panel [((), JNum 1), ((), JNum 0)] \<in> {JNum 0, JNum 1}"
  using panel_stays_in_range [of "[((), JNum 1), ((), JNum 0)]"] by simp



text \<open>
  \<^bold>\<open>C5.\<close> The claim that every list of (name, sequence) pairs is recovered from its
  text block does not hold. A sequence that contains a line terminator yields the same
  block as several records do: the one record with name \<^verbatim>\<open>a\<close> and the three-line
  sequence \<^verbatim>\<open>b\<close>, \<^verbatim>\<open>>c\<close>, \<^verbatim>\<open>d\<close> and the two records \<^verbatim>\<open>a\<close> / \<^verbatim>\<open>b\<close> and \<^verbatim>\<open>c\<close> / \<^verbatim>\<open>d\<close> give one
  block, which is read back as the two records. A name that contains a line terminator,
  and a name or a sequence that contains the marker, give a block that splits into
  other pieces than a name and a sequence per marker, so that no list is read back.
\<close>

theorem roundtrip_counterexample:
  "map_sum id joinedDNA
     (LocusPage nat_spelling (JNum 0)
        (JObj (gene_X_fields (JArr [rec_obj (''a'', ''b\<newline>>c\<newline>d'')])))) =
     Inr ''>a\<newline>b\<newline>>c\<newline>d\<newline>''
   \<and> map_sum id joinedDNA
     (LocusPage nat_spelling (JNum 0)
        (JObj (gene_X_fields (JArr [rec_obj (''a'', ''b''), rec_obj (''c'', ''d'')])))) =
     Inr ''>a\<newline>b\<newline>>c\<newline>d\<newline>''
   \<and> spec_read_block ''>a\<newline>b\<newline>>c\<newline>d\<newline>'' = Some [(''a'', ''b''), (''c'', ''d'')]
   \<and> spec_read_block ''>a\<newline>b\<newline>>c\<newline>d\<newline>'' \<noteq> Some [(''a'', ''b\<newline>>c\<newline>d'')]
   \<and> map_sum id joinedDNA
     (LocusPage nat_spelling (JNum 0)
        (JObj (gene_X_fields (JArr [rec_obj (''a\<newline>b'', ''AT'')])))) =
     Inr ''>a\<newline>b\<newline>AT\<newline>''
   \<and> spec_read_block ''>a\<newline>b\<newline>AT\<newline>'' = None
   \<and> map_sum id joinedDNA
     (LocusPage nat_spelling (JNum 0)
        (JObj (gene_X_fields (JArr [rec_obj (''a>b'', ''AT'')])))) =
     Inr ''>a>b\<newline>AT\<newline>''
   \<and> spec_read_block ''>a>b\<newline>AT\<newline>'' = None
   \<and> map_sum id joinedDNA
     (LocusPage nat_spelling (JNum 0)
        (JObj (gene_X_fields (JArr [rec_obj (''a'', ''A>T'')])))) =
     Inr ''>a\<newline>A>T\<newline>''
   \<and> spec_read_block ''>a\<newline>A>T\<newline>'' = None"
  by (simp add: example_defs spec_read_block_def spec_read_entry_def)

text \<open>
  \<^bold>\<open>C5.\<close> As amended: when no name and no sequence contains a line terminator or the
  marker character, splitting the formatter's block on its line terminators and the
  marker character recovers exactly the original ordered list of (name, sequence) pairs.
  The page, produced from every bundle whose other parts it can read, has a DNA text
  that is read back as the records of \<^verbatim>\<open>data.dna.sequences\<close>, and a protein text that is
  read back as the records of \<^verbatim>\<open>data.protein.sequences\<close>.
\<close>

theorem roundtrip_without_separators:
  assumes "list_all2 is_record vs rs"
    and "\<forall>r \<in> set rs. \<forall>c \<in> separators. c \<notin> set (fst r) \<and> c \<notin> set (snd r)"
  shows "format_sequences nstr (JArr vs) = Inr (spec_block rs)
    \<and> spec_read_block (spec_block rs) = Some rs
    \<and> (summary_readable nstr data \<and> tree_readable data
        \<and> sequences_of data ''dna'' = Inr (JArr vs)
        \<and> sequences_formattable nstr data ''protein'' \<longrightarrow>
        (\<exists>pg. LocusPage nstr panel data = Inr pg \<and> spec_read_block (joinedDNA pg) = Some rs))
    \<and> (summary_readable nstr data \<and> tree_readable data
        \<and> sequences_formattable nstr data ''dna''
        \<and> sequences_of data ''protein'' = Inr (JArr vs) \<longrightarrow>
        (\<exists>pg. LocusPage nstr panel data = Inr pg \<and> spec_read_block (joinedProtein pg) = Some rs))"
proof -
  have block: "format_sequences nstr (JArr vs) = Inr (spec_block rs)"
    by (rule format_sequences_records [OF assms(1)])
  have recovered: "spec_read_block (spec_block rs) = Some rs"
    by (rule read_spec_block [OF assms(2)])
  have dna: "\<exists>pg. LocusPage nstr panel data = Inr pg \<and> spec_read_block (joinedDNA pg) = Some rs"
    if "summary_readable nstr data" "tree_readable data"
      "sequences_of data ''dna'' = Inr (JArr vs)" "sequences_formattable nstr data ''protein''"
  proof -
    from that(4) obtain pseq ptext where
      p: "sequences_of data ''protein'' = Inr pseq" "format_sequences nstr pseq = Inr ptext"
      by (auto simp: formattable_iff)
    from LocusPage_composes [OF that(1,2,3) block p, of panel] recovered show ?thesis
      by auto
  qed
  have protein: "\<exists>pg. LocusPage nstr panel data = Inr pg
      \<and> spec_read_block (joinedProtein pg) = Some rs"
    if "summary_readable nstr data" "tree_readable data"
      "sequences_formattable nstr data ''dna''" "sequences_of data ''protein'' = Inr (JArr vs)"
  proof -
    from that(3) obtain dseq dtext where
      d: "sequences_of data ''dna'' = Inr dseq" "format_sequences nstr dseq = Inr dtext"
      by (auto simp: formattable_iff)
    from LocusPage_composes [OF that(1,2) d that(4) block, of panel] recovered show ?thesis
      by auto
  qed
  from block recovered dna protein show ?thesis
    by blast
qed

theorem roundtrip_without_separators_witness:
  "list_all2 is_record (map rec_obj gene_X_dna) gene_X_dna
   \<and> list_all2 is_record (map rec_obj gene_X_protein) gene_X_protein
   \<and> separators \<inter> set (concat (map fst gene_X_dna @ map snd gene_X_dna)) = {}
   \<and> separators \<inter> set (concat (map fst gene_X_protein @ map snd gene_X_protein)) = {}
   \<and> summary_readable nat_spelling gene_X_records_bundle \<and> tree_readable gene_X_records_bundle
   \<and> sequences_of gene_X_records_bundle ''dna'' = Inr (JArr (map rec_obj gene_X_dna))
   \<and> sequences_of gene_X_records_bundle ''protein'' = Inr (JArr (map rec_obj gene_X_protein))
   \<and> sequences_formattable nat_spelling gene_X_records_bundle ''dna''
   \<and> sequences_formattable nat_spelling gene_X_records_bundle ''protein''
   \<and> format_sequences nat_spelling (JArr (map rec_obj gene_X_dna)) =
       Inr ''>allele_1\<newline>ATGC\<newline>>allele_2\<newline>ATGCAT\<newline>>allele_3\<newline>ATGA\<newline>''
   \<and> spec_read_block ''>allele_1\<newline>ATGC\<newline>>allele_2\<newline>ATGCAT\<newline>>allele_3\<newline>ATGA\<newline>'' =
       Some [(''allele_1'', ''ATGC''), (''allele_2'', ''ATGCAT''), (''allele_3'', ''ATGA'')]
   \<and> LocusPage nat_spelling (JNum 0) gene_X_records_bundle = Inr gene_X_records_page
   \<and> spec_read_block (joinedDNA gene_X_records_page) =
       Some [(''allele_1'', ''ATGC''), (''allele_2'', ''ATGCAT''), (''allele_3'', ''ATGA'')]
   \<and> spec_read_block (joinedProtein gene_X_records_page) =
       Some [(''allele_1'', ''MK''), (''allele_2'', ''M'')]"
proof -
  have recs: "list_all2 is_record (map rec_obj gene_X_dna) gene_X_dna"
    "list_all2 is_record (map rec_obj gene_X_protein) gene_X_protein"
    by (simp_all add: gene_X_dna_def gene_X_protein_def is_record_def rec_obj_def)
  have chars: "separators \<inter> set (concat (map fst gene_X_dna @ map snd gene_X_dna)) = {}"
    "separators \<inter> set (concat (map fst gene_X_protein @ map snd gene_X_protein)) = {}"
    by (simp_all add: gene_X_dna_def gene_X_protein_def separators_def)
  have clean: "\<forall>r \<in> set gene_X_dna. \<forall>c \<in> separators. c \<notin> set (fst r) \<and> c \<notin> set (snd r)"
    "\<forall>r \<in> set gene_X_protein. \<forall>c \<in> separators. c \<notin> set (fst r) \<and> c \<notin> set (snd r)"
    by (simp_all add: gene_X_dna_def gene_X_protein_def separators_def)
  have shape: "summary_readable nat_spelling gene_X_records_bundle"
    "tree_readable gene_X_records_bundle"
    "sequences_of gene_X_records_bundle ''dna'' = Inr (JArr (map rec_obj gene_X_dna))"
    "sequences_of gene_X_records_bundle ''protein'' = Inr (JArr (map rec_obj gene_X_protein))"
    "sequences_formattable nat_spelling gene_X_records_bundle ''dna''"
    "sequences_formattable nat_spelling gene_X_records_bundle ''protein''"
    by (simp_all add: shape_defs gene_X_records_bundle_def)
  note d = roundtrip_without_separators [OF recs(1) clean(1),
      of nat_spelling gene_X_records_bundle "JNum 0"]
  note p = roundtrip_without_separators [OF recs(2) clean(2),
      of nat_spelling gene_X_records_bundle "JNum 0"]
  have dna_text: "spec_block gene_X_dna =
      ''>allele_1\<newline>ATGC\<newline>>allele_2\<newline>ATGCAT\<newline>>allele_3\<newline>ATGA\<newline>''"
    by (simp add: gene_X_dna_def spec_block_def spec_entry_def)
  from d dna_text have block: "format_sequences nat_spelling (JArr (map rec_obj gene_X_dna)) =
      Inr ''>allele_1\<newline>ATGC\<newline>>allele_2\<newline>ATGCAT\<newline>>allele_3\<newline>ATGA\<newline>''"
    and recovered: "spec_read_block
        ''>allele_1\<newline>ATGC\<newline>>allele_2\<newline>ATGCAT\<newline>>allele_3\<newline>ATGA\<newline>'' =
      Some [(''allele_1'', ''ATGC''), (''allele_2'', ''ATGCAT''), (''allele_3'', ''ATGA'')]"
    by (simp_all add: gene_X_dna_def)
  from d shape obtain pg where "LocusPage nat_spelling (JNum 0) gene_X_records_bundle = Inr pg"
    "spec_read_block (joinedDNA pg) = Some gene_X_dna"
    by blast
  moreover from p shape obtain pg' where
    "LocusPage nat_spelling (JNum 0) gene_X_records_bundle = Inr pg'"
    "spec_read_block (joinedProtein pg') = Some gene_X_protein"
    by blast
  ultimately have page: "LocusPage nat_spelling (JNum 0) gene_X_records_bundle = Inr gene_X_records_page
      \<and> spec_read_block (joinedDNA gene_X_records_page) =
          Some [(''allele_1'', ''ATGC''), (''allele_2'', ''ATGCAT''), (''allele_3'', ''ATGA'')]
      \<and> spec_read_block (joinedProtein gene_X_records_page) =
          Some [(''allele_1'', ''MK''), (''allele_2'', ''M'')]"
    by (simp add: gene_X_records_page_def gene_X_dna_def gene_X_protein_def)
  from recs chars shape block recovered page show ?thesis
    by simp
qed

text \<open>
  \<^bold>\<open>C6.\<close> The panel value starts at 0; each \<^verbatim>\<open>select(newIndex)\<close> replaces it by
  \<open>newIndex\<close>; \<^verbatim>\<open>select(1)\<close> followed by \<^verbatim>\<open>select(0)\<close> gives the initial value again; and
  after any sequence of calls the value is the argument of the last call, or 0 if there
  was none.
\<close>

theorem panel_is_last_selected:
  "initial_panel = JNum 0
   \<and> handleChange event newValue panel = newValue
   \<and> after_changes initial_panel [(e1, JNum 1), (e2, JNum 0)] = initial_panel
   \<and> after_changes initial_panel evs = last (JNum 0 # map snd evs)"
  by (simp add: after_changes_last initial_panel_def handleChange_def setPanel_def)



text \<open>
  \<^bold>\<open>C8.\<close> Two runs on the same bundle that differ only in the panel value throw the
  same error or yield the same summary table, the same two chart datasets with their
  layout and export configuration, the same tree description and the same two text
  blocks, as constants and as handed to the table, tree and text widgets.
\<close>

theorem panel_independent:
  "map_sum id report_model (LocusPage nstr panel1 data) =
     map_sum id report_model (LocusPage nstr panel2 data)
   \<and> map_sum id widget_data (LocusPage nstr panel1 data) =
     map_sum id widget_data (LocusPage nstr panel2 data)"
  by (simp add: LocusPage_def Let_def map_sum_bind_res report_model_def widget_data_def)

text \<open>
  \<^bold>\<open>C9.\<close> The claim that an absent \<^verbatim>\<open>lengths\<close> array or an absent locus-name cell
  makes the composition fail at the first read does not hold: the read yields
  \<^verbatim>\<open>undefined\<close>, which becomes both series of the length-distribution dataset, and
  which the export filename spells out as \<^verbatim>\<open>undefined_AlleleSizes\<close>.
\<close>

theorem absent_fields_counterexample:
  "get_field (JObj (without ''lengths'' (gene_X_fields (JArr [rec_obj (''allele_1'', ''ATGC'')]))))
     ''lengths'' = Inr JUndefined
   \<and> map_sum id plotDataPanelA
       (LocusPage nat_spelling (JNum 0)
          (JObj (without ''lengths'' (gene_X_fields (JArr [rec_obj (''allele_1'', ''ATGC'')]))))) =
     Inr (JArr
       [JObj
          [(''x'', JUndefined),
           (''y'', JUndefined),
           (''type'', JStr ''histogram''),
           (''name'', JStr ''gene_X''),
           (''marker'', JObj
              [(''color'', JStr ''#0570b0''),
               (''line'', JObj [(''color'', JStr ''#a6bddb''), (''width'', JNum 1)])])]])
   \<and> locus_cell
       (JObj ((''summaryData'', gene_X_summary_no_cell) #
          gene_X_fields (JArr [rec_obj (''allele_1'', ''ATGC'')]))) = Inr JUndefined
   \<and> map_sum id configPanelA
       (LocusPage nat_spelling (JNum 0)
          (JObj ((''summaryData'', gene_X_summary_no_cell) #
             gene_X_fields (JArr [rec_obj (''allele_1'', ''ATGC'')])))) =
     Inr (JObj
       [(''toImageButtonOptions'', JObj
           [(''format'', JStr ''svg''),
            (''filename'', JStr ''undefined_AlleleSizes''),
            (''height'', JNum 500),
            (''width'', JNum 700),
            (''scale'', JNum 1)])])"
  by (simp add: example_defs locus_cell_def gene_X_summary_no_cell_def)

text \<open>
  \<^bold>\<open>C9.\<close> As amended: on a bundle that composes, an absent bundle and a bundle
  without \<^verbatim>\<open>summaryData\<close>, without the row that holds the locus name, without \<^verbatim>\<open>phylo\<close>,
  without \<^verbatim>\<open>dna\<close> or without \<^verbatim>\<open>protein\<close> make the run throw a \<^verbatim>\<open>TypeError\<close> at the first
  read from the missing value, with no guard or default in between. Leaving out
  \<^verbatim>\<open>lengths\<close> or \<^verbatim>\<open>ids\<close>, or a locus-name cell that reads as \<^verbatim>\<open>undefined\<close> in a row that
  exists, does not make it throw: the run completes with \<^verbatim>\<open>undefined\<close> as the series,
  respectively as the locus name, and \<^verbatim>\<open>undefined_AlleleSizes\<close> as the export filename.
\<close>

theorem absent_fields:
  assumes "LocusPage nstr panel (JObj kvs) = Inr pg"
  shows "LocusPage nstr panel JUndefined = Inl (ReadOfNullish ''summaryData'')
    \<and> LocusPage nstr panel (JObj (without ''summaryData'' kvs)) = Inl (ReadOfNullish ''1'')
    \<and> LocusPage nstr panel (JObj (without ''phylo'' kvs)) = Inl (ReadOfNullish ''phylo_data'')
    \<and> LocusPage nstr panel (JObj (without ''dna'' kvs)) = Inl (ReadOfNullish ''sequences'')
    \<and> LocusPage nstr panel (JObj (without ''protein'' kvs)) = Inl (ReadOfNullish ''sequences'')
    \<and> (\<exists>pg'. LocusPage nstr panel (JObj (without ''lengths'' kvs)) = Inr pg'
          \<and> series_x (plotDataPanelA pg') = Inr JUndefined
          \<and> series_y (plotDataPanelA pg') = Inr JUndefined
          \<and> series_y (plotDataPanelB pg') = Inr JUndefined)
    \<and> (\<exists>pg'. LocusPage nstr panel (JObj (without ''ids'' kvs)) = Inr pg'
          \<and> series_x (plotDataPanelB pg') = Inr JUndefined)
    \<and> (get_index noRow 1 = Inr sec \<and> get_field sec ''rows'' = Inr noRows
          \<and> get_index noRows 0 = Inr JUndefined \<longrightarrow>
         LocusPage nstr panel (JObj ((''summaryData'', noRow) # kvs)) = Inl (ReadOfNullish ''0''))
    \<and> (locus_cell (JObj ((''summaryData'', noCell) # kvs)) = Inr JUndefined \<longrightarrow>
         (\<exists>pg'. LocusPage nstr panel (JObj ((''summaryData'', noCell) # kvs)) = Inr pg'
            \<and> locusName pg' = JUndefined
            \<and> configPanelA pg' = JObj
                 [(''toImageButtonOptions'', JObj
                     [(''format'', JStr ''svg''),
                      (''filename'', JStr ''undefined_AlleleSizes''),
                      (''height'', JNum 500),
                      (''width'', JNum 700),
                      (''scale'', JNum 1)])]))"
proof -
  from assms obtain sd s1 rows row0 lname nameText ph pd dna dseq dtext prot pseq ptext L I where
    r: "get_field (JObj kvs) ''summaryData'' = Inr sd"
      "get_index sd 1 = Inr s1"
      "get_field s1 ''rows'' = Inr rows"
      "get_index rows 0 = Inr row0"
      "get_index row0 0 = Inr lname"
      "to_str nstr lname = Inr nameText"
      "get_field (JObj kvs) ''phylo'' = Inr ph"
      "get_field ph ''phylo_data'' = Inr pd"
      "get_field (JObj kvs) ''dna'' = Inr dna"
      "get_field dna ''sequences'' = Inr dseq"
      "js_map (sequenceStr nstr) dseq = Inr dtext"
      "get_field (JObj kvs) ''protein'' = Inr prot"
      "get_field prot ''sequences'' = Inr pseq"
      "js_map (sequenceStr nstr) pseq = Inr ptext"
    and r': "get_field (JObj kvs) ''lengths'' = Inr L" "get_field (JObj kvs) ''ids'' = Inr I"
    by (elim LocusPage_InrD)
  note wo = get_field_without_same get_field_without_other
  have 1: "LocusPage nstr panel JUndefined = Inl (ReadOfNullish ''summaryData'')"
    by (simp add: LocusPage_def Let_def)
  have 2: "LocusPage nstr panel (JObj (without ''summaryData'' kvs)) = Inl (ReadOfNullish ''1'')"
    by (simp add: LocusPage_def Let_def wo index_key_1 del: get_field.simps(3) index_key.simps One_nat_def)
  have 3: "LocusPage nstr panel (JObj (without ''phylo'' kvs)) = Inl (ReadOfNullish ''phylo_data'')"
    using r r' by (simp add: LocusPage_def Let_def wo del: get_field.simps(3) index_key.simps)
  have 4: "LocusPage nstr panel (JObj (without ''dna'' kvs)) = Inl (ReadOfNullish ''sequences'')"
    using r r' by (simp add: LocusPage_def Let_def wo del: get_field.simps(3) index_key.simps)
  have 5: "LocusPage nstr panel (JObj (without ''protein'' kvs)) = Inl (ReadOfNullish ''sequences'')"
    using r r' by (simp add: LocusPage_def Let_def wo del: get_field.simps(3) index_key.simps)
  have 6: "\<exists>pg'. LocusPage nstr panel (JObj (without ''lengths'' kvs)) = Inr pg'
          \<and> series_x (plotDataPanelA pg') = Inr JUndefined
          \<and> series_y (plotDataPanelA pg') = Inr JUndefined
          \<and> series_y (plotDataPanelB pg') = Inr JUndefined"
    using LocusPage_reads [of "JObj (without ''lengths'' kvs)" sd s1 rows row0 lname nstr nameText
        ph pd dna dseq dtext prot pseq ptext panel] r
    by (simp add: wo del: get_field.simps(3) index_key.simps) blast
  have 7: "\<exists>pg'. LocusPage nstr panel (JObj (without ''ids'' kvs)) = Inr pg'
          \<and> series_x (plotDataPanelB pg') = Inr JUndefined"
    using LocusPage_reads [of "JObj (without ''ids'' kvs)" sd s1 rows row0 lname nstr nameText
        ph pd dna dseq dtext prot pseq ptext panel] r
    by (simp add: wo del: get_field.simps(3) index_key.simps) blast
  have 8: "\<exists>pg'. LocusPage nstr panel (JObj ((''summaryData'', noCell) # kvs)) = Inr pg'
            \<and> locusName pg' = JUndefined
            \<and> configPanelA pg' = JObj
                 [(''toImageButtonOptions'', JObj
                     [(''format'', JStr ''svg''),
                      (''filename'', JStr ''undefined_AlleleSizes''),
                      (''height'', JNum 500),
                      (''width'', JNum 700),
                      (''scale'', JNum 1)])]"
    if cell: "locus_cell (JObj ((''summaryData'', noCell) # kvs)) = Inr JUndefined"
  proof -
    from cell obtain s1' rows' row0' where
      c: "get_index noCell 1 = Inr s1'" "get_field s1' ''rows'' = Inr rows'"
        "get_index rows' 0 = Inr row0'" "get_index row0' 0 = Inr JUndefined"
      by (auto simp: locus_cell_def bind_res_eq_Inr)
    have sd: "get_field (JObj ((''summaryData'', noCell) # kvs)) ''summaryData'' = Inr noCell"
      by simp
    have other: "get_field (JObj ((''summaryData'', noCell) # kvs)) ''phylo'' = Inr ph"
      "get_field (JObj ((''summaryData'', noCell) # kvs)) ''dna'' = Inr dna"
      "get_field (JObj ((''summaryData'', noCell) # kvs)) ''protein'' = Inr prot"
      using r by simp_all
    have u: "to_str nstr JUndefined = Inr ''undefined''"
      by simp
    from LocusPage_reads [OF sd c u other(1) r(8) other(2) r(10) r(11) other(3) r(13) r(14), of panel]
    show ?thesis by auto
  qed
  have 9: "LocusPage nstr panel (JObj ((''summaryData'', noRow) # kvs)) = Inl (ReadOfNullish ''0'')"
    if "get_index noRow 1 = Inr sec" "get_field sec ''rows'' = Inr noRows"
      "get_index noRows 0 = Inr JUndefined"
    using that by (simp add: LocusPage_def Let_def index_key_0 del: index_key.simps)
  show ?thesis
    using 1 2 3 4 5 6 7 by (intro conjI impI) (simp_all only: 8 9)
qed

theorem absent_fields_witness:
  "LocusPage nat_spelling (JNum 0) (JObj (gene_X_fields (JArr [rec_obj (''allele_1'', ''ATGC'')]))) =
     Inr gene_X_page
   \<and> locus_cell
       (JObj ((''summaryData'', gene_X_summary_no_cell) #
          gene_X_fields (JArr [rec_obj (''allele_1'', ''ATGC'')]))) = Inr JUndefined
   \<and> LocusPage nat_spelling (JNum 0) JUndefined = Inl (ReadOfNullish ''summaryData'')
   \<and> LocusPage nat_spelling (JNum 0)
       (JObj (without ''summaryData'' (gene_X_fields (JArr [rec_obj (''allele_1'', ''ATGC'')])))) =
     Inl (ReadOfNullish ''1'')
   \<and> LocusPage nat_spelling (JNum 0)
       (JObj (without ''phylo'' (gene_X_fields (JArr [rec_obj (''allele_1'', ''ATGC'')])))) =
     Inl (ReadOfNullish ''phylo_data'')
   \<and> LocusPage nat_spelling (JNum 0)
       (JObj (without ''dna'' (gene_X_fields (JArr [rec_obj (''allele_1'', ''ATGC'')])))) =
     Inl (ReadOfNullish ''sequences'')
   \<and> LocusPage nat_spelling (JNum 0)
       (JObj (without ''protein'' (gene_X_fields (JArr [rec_obj (''allele_1'', ''ATGC'')])))) =
     Inl (ReadOfNullish ''sequences'')
   \<and> map_sum id locusName
       (LocusPage nat_spelling (JNum 0)
          (JObj ((''summaryData'', gene_X_summary_no_cell) #
             gene_X_fields (JArr [rec_obj (''allele_1'', ''ATGC'')])))) = Inr JUndefined
   \<and> LocusPage nat_spelling (JNum 0)
       (JObj ((''summaryData'', gene_X_summary_no_row) #
          gene_X_fields (JArr [rec_obj (''allele_1'', ''ATGC'')]))) = Inl (ReadOfNullish ''0'')"
proof -
  have row: "get_index gene_X_summary_no_row 1 =
        Inr (JObj [(''columns'', JArr [JStr ''Locus'', JStr ''Alleles'']), (''rows'', JArr [])])
      \<and> get_field (JObj [(''columns'', JArr [JStr ''Locus'', JStr ''Alleles'']), (''rows'', JArr [])])
          ''rows'' = Inr (JArr [])
      \<and> get_index (JArr []) 0 = Inr JUndefined"
    by (simp add: gene_X_summary_no_row_def)
  have run: "LocusPage nat_spelling (JNum 0)
      (JObj (gene_X_fields (JArr [rec_obj (''allele_1'', ''ATGC'')]))) = Inr gene_X_page"
    using gene_X_run by (simp add: gene_X_bundle_def)
  have cell: "locus_cell
      (JObj ((''summaryData'', gene_X_summary_no_cell) #
         gene_X_fields (JArr [rec_obj (''allele_1'', ''ATGC'')]))) = Inr JUndefined"
    by (simp add: locus_cell_def gene_X_summary_no_cell_def digit_char_def)
  from absent_fields [OF run, where noRow = gene_X_summary_no_row and noCell = gene_X_summary_no_cell
      and sec = "JObj [(''columns'', JArr [JStr ''Locus'', JStr ''Alleles'']), (''rows'', JArr [])]"
      and noRows = "JArr []"] row cell run
  show ?thesis
    by auto
qed



end
